theory Spec2Isabelle
  imports Main
begin

section \<open>Python values, exceptions and process state\<close>

text \<open>
  Strings are byte lists (UTF-8); the two emoji of the source are written as their bytes.
  A chat message is a Python \<open>Dict[str, str]\<close>, modelled as a map from keys to values.
\<close>

type_synonym message = "string \<rightharpoonup> string"

text \<open>
  Exceptions are values. \<open>HTTPException\<close> is FastAPI's exception class; it derives from
  Python's \<open>Exception\<close>, so an \<open>except Exception\<close> clause catches it like any other.
  \<open>ExternalError\<close> stands for whatever a collaborator outside the repository raises
  (psycopg2, LangChain, the Google client, the network).
\<close>

datatype exn =
    HTTPException nat string
  | KeyError string
  | ExternalError string

text \<open>A LangChain tool, identified by its name.\<close>

datatype tool = Tool string

text \<open>
  Values the agent executor may hand back. Only the distinctions the source tests are kept:
  \<open>isinstance(_, str)\<close>, \<open>isinstance(_, list)\<close>, \<open>isinstance(_, dict)\<close>. Every other
  object is represented by the text \<open>str()\<close> gives for it.
\<close>

datatype py_value =
    PyStr string
  | PyObj string

datatype fragment =
    FragDict "(string \<times> py_value) list"
  | FragValue py_value

datatype raw_output =
    OutStr string
  | OutList "fragment list"
  | OutObj string

type_synonym response = "string \<rightharpoonup> raw_output"

text \<open>
  Calls to collaborators are recorded in a trace, oldest first. The trace is observation
  only: no function of the model reads it.
\<close>

datatype event =
    StoreLoad string
  | StoreSave string
  | StoreDelete "string option"
  | DbConnect
  | SearchToolInit
  | GmailSetup
  | AgentInvoke string

text \<open>
  The process-wide state: the module globals \<open>_IN_MEMORY_STORE\<close> (db.py) and
  \<open>GMAIL_TOOLS_CACHE\<close> (gmail_tool.py), and the rows of the PostgreSQL table
  \<open>chat_history\<close> (one row per \<open>user_id\<close>, by its UNIQUE constraint).
\<close>

record world =
  IN_MEMORY_STORE :: "string \<rightharpoonup> message list"
  chat_history_table :: "string \<rightharpoonup> message list"
  GMAIL_TOOLS_CACHE :: "tool list option"
  trace :: "event list"

text \<open>The module constants of config.py and db.py that the code reads.\<close>

record config =
  API_TOKEN :: string
  PSYCOPG2_AVAILABLE :: bool
  POSTGRES_URL :: string

text \<open>
  What the collaborators do when they are called during one request: whether the durable
  statement of a load, save or delete fails (\<open>None\<close>: it is committed), whether building
  the search tool fails, what the Gmail setup yields, what the agent executor yields for
  given tools, question and formatted history, and Python's \<open>str()\<close> on exceptions.
\<close>

record env =
  load_db :: "exn option"
  save_db :: "exn option"
  delete_db :: "exn option"
  search_init :: "exn option"
  gmail_setup :: "exn + tool list"
  agent_invoke :: "tool list \<Rightarrow> string \<Rightarrow> message list \<Rightarrow> exn + response"
  exc_str :: "exn \<Rightarrow> string"

definition log_event :: "event \<Rightarrow> world \<Rightarrow> world" where
  "log_event ev w = w\<lparr>trace := trace w @ [ev]\<rparr>"

subsection \<open>Strings\<close>

text \<open>The ASCII characters that \<open>str.strip()\<close> removes.\<close>

definition is_space :: "char \<Rightarrow> bool" where
  "is_space c = (c \<in> {CHR 0x09, CHR 0x0A, CHR 0x0B, CHR 0x0C, CHR 0x0D,
                        CHR 0x1C, CHR 0x1D, CHR 0x1E, CHR 0x1F, CHR 0x20})"

definition strip :: "string \<Rightarrow> string" where
  "strip s = rev (dropWhile is_space (rev (dropWhile is_space s)))"

text \<open>\<open>sep.join(xs)\<close>: the separator stands between consecutive elements only.\<close>

fun join :: "string \<Rightarrow> string list \<Rightarrow> string" where
  "join sep [] = []"
| "join sep [x] = x"
| "join sep (x # y # ys) = x @ sep @ join sep (y # ys)"

definition py_str :: "py_value \<Rightarrow> string" where
  "py_str v = (case v of PyStr s \<Rightarrow> s | PyObj s \<Rightarrow> s)"

section \<open>Conversation store (backend/database/db.py)\<close>

definition can_use_db :: "config \<Rightarrow> bool" where
  "can_use_db cfg =
     (PSYCOPG2_AVAILABLE cfg \<and> POSTGRES_URL cfg \<noteq> [] \<and> strip (POSTGRES_URL cfg) \<noteq> [])"

text \<open>\<open>_IN_MEMORY_STORE.get(user_id, [])\<close>, copied by \<open>list(...)\<close>.\<close>

definition store_get :: "(string \<rightharpoonup> message list) \<Rightarrow> string \<Rightarrow> message list" where
  "store_get m user_id = (case m user_id of None \<Rightarrow> [] | Some h \<Rightarrow> h)"

text \<open>
  The durable statements. Each opens a connection, runs one statement and, for a write,
  commits; a failure anywhere before the commit leaves the table as it was. Closing the
  connection in the \<open>finally\<close> clause is taken not to raise.
\<close>

definition db_select ::
  "exn option \<Rightarrow> string \<Rightarrow> world \<Rightarrow> (exn + message list option) \<times> world" where
  "db_select failure user_id w =
     (let w1 = log_event DbConnect w in
      case failure of
        Some e \<Rightarrow> (Inl e, w1)
      | None \<Rightarrow> (Inr (chat_history_table w1 user_id), w1))"

definition db_upsert ::
  "exn option \<Rightarrow> string \<Rightarrow> message list \<Rightarrow> world \<Rightarrow> (exn + unit) \<times> world" where
  "db_upsert failure user_id chat_history w =
     (let w1 = log_event DbConnect w in
      case failure of
        Some e \<Rightarrow> (Inl e, w1)
      | None \<Rightarrow>
          (Inr (), w1\<lparr>chat_history_table := (chat_history_table w1)(user_id \<mapsto> chat_history)\<rparr>))"

definition db_delete ::
  "exn option \<Rightarrow> string option \<Rightarrow> world \<Rightarrow> (exn + unit) \<times> world" where
  "db_delete failure user_id w =
     (let w1 = log_event DbConnect w in
      case failure of
        Some e \<Rightarrow> (Inl e, w1)
      | None \<Rightarrow>
          (case user_id of
             Some u \<Rightarrow>
               (if u \<noteq> []
                then (Inr (), w1\<lparr>chat_history_table := (chat_history_table w1)(u := None)\<rparr>)
                else (Inr (), w1\<lparr>chat_history_table := Map.empty\<rparr>))
           | None \<Rightarrow> (Inr (), w1\<lparr>chat_history_table := Map.empty\<rparr>)))"

definition load_chat_history ::
  "config \<Rightarrow> env \<Rightarrow> string \<Rightarrow> world \<Rightarrow> (exn + message list) \<times> world" where
  "load_chat_history cfg env user_id w =
     (let w1 = log_event (StoreLoad user_id) w in
      if \<not> can_use_db cfg then (Inr (store_get (IN_MEMORY_STORE w1) user_id), w1)
      else
        (case db_select (load_db env) user_id w1 of
           (Inr row, w2) \<Rightarrow> (Inr (case row of Some h \<Rightarrow> h | None \<Rightarrow> []), w2)
         | (Inl e, w2) \<Rightarrow> (Inr (store_get (IN_MEMORY_STORE w2) user_id), w2)))"

definition save_chat_history ::
  "config \<Rightarrow> env \<Rightarrow> string \<Rightarrow> message list \<Rightarrow> world \<Rightarrow> (exn + unit) \<times> world" where
  "save_chat_history cfg env user_id chat_history w =
     (let w1 = log_event (StoreSave user_id) w;
          w2 = w1\<lparr>IN_MEMORY_STORE := (IN_MEMORY_STORE w1)(user_id \<mapsto> chat_history)\<rparr>
      in
      if \<not> can_use_db cfg then (Inr (), w2)
      else
        (case db_upsert (save_db env) user_id chat_history w2 of
           (Inr u, w3) \<Rightarrow> (Inr (), w3)
         | (Inl e, w3) \<Rightarrow> (Inr (), w3)))"

definition fmt_user :: "string option \<Rightarrow> string" where
  "fmt_user user_id = (case user_id of None \<Rightarrow> ''None'' | Some u \<Rightarrow> u)"

definition delete_chat_history ::
  "config \<Rightarrow> env \<Rightarrow> string option \<Rightarrow> world \<Rightarrow> (exn + string) \<times> world" where
  "delete_chat_history cfg env user_id w =
     (let w1 = log_event (StoreDelete user_id) w;
          w2 = (case user_id of
                  Some u \<Rightarrow>
                    (if u \<noteq> []
                     then w1\<lparr>IN_MEMORY_STORE := (IN_MEMORY_STORE w1)(u := None)\<rparr>
                     else w1\<lparr>IN_MEMORY_STORE := Map.empty\<rparr>)
                | None \<Rightarrow> w1\<lparr>IN_MEMORY_STORE := Map.empty\<rparr>)
      in
      if \<not> can_use_db cfg
      then (Inr (''Chat history cleared (in-memory) for user='' @ fmt_user user_id), w2)
      else
        (case db_delete (delete_db env) user_id w2 of
           (Inr u, w3) \<Rightarrow> (Inr (''Chat history cleared for user='' @ fmt_user user_id), w3)
         | (Inl e, w3) \<Rightarrow> (Inr (''Cleared in-memory; DB error: '' @ exc_str env e), w3)))"


section \<open>Tools (backend/services/tools)\<close>

definition datetime_tool :: tool where
  "datetime_tool = Tool ''current_datetime''"

text \<open>\<open>duckduckgo_search_tool\<close> logs a construction failure and raises it again.\<close>

definition duckduckgo_search_tool :: "env \<Rightarrow> world \<Rightarrow> (exn + tool) \<times> world" where
  "duckduckgo_search_tool env w =
     (let w1 = log_event SearchToolInit w in
      case search_init env of
        Some e \<Rightarrow> (Inl e, w1)
      | None \<Rightarrow> (Inr (Tool ''duckduckgo_search''), w1))"

text \<open>
  \<open>get_cached_gmail_tools\<close>: the credentials, resource service and toolkit calls are the
  setup, whose outcome is \<open>gmail_setup env\<close>.
\<close>

definition get_cached_gmail_tools :: "env \<Rightarrow> world \<Rightarrow> (exn + tool list) \<times> world" where
  "get_cached_gmail_tools env w =
     (case GMAIL_TOOLS_CACHE w of
        Some cached \<Rightarrow> (Inr cached, w)
      | None \<Rightarrow>
          (let w1 = log_event GmailSetup w in
           case gmail_setup env of
             Inr tools \<Rightarrow> (Inr tools, w1\<lparr>GMAIL_TOOLS_CACHE := Some tools\<rparr>)
           | Inl e \<Rightarrow> (Inr [], w1\<lparr>GMAIL_TOOLS_CACHE := Some []\<rparr>)))"

section \<open>Turn orchestration (backend/services/agent_service/agent.py)\<close>

record query_response =
  resp_user_id :: string
  resp_question :: string
  resp_output :: string
  chat_history_length :: nat
  error :: "string option"

definition SORRY_TEXT :: string where
  "SORRY_TEXT = [CHR 0xE2, CHR 0x9D, CHR 0x8C]
     @ '' Sorry, something went wrong. Please try again later.''"

text \<open>\<open>{"role": msg["role"], "content": msg["content"]}\<close>: a missing key raises.\<close>

definition format_message :: "message \<Rightarrow> exn + message" where
  "format_message msg =
     (case msg ''role'' of
        None \<Rightarrow> Inl (KeyError ''role'')
      | Some r \<Rightarrow>
          (case msg ''content'' of
             None \<Rightarrow> Inl (KeyError ''content'')
           | Some c \<Rightarrow> Inr [''role'' \<mapsto> r, ''content'' \<mapsto> c]))"

fun format_history :: "message list \<Rightarrow> exn + message list" where
  "format_history [] = Inr []"
| "format_history (msg # msgs) =
     (case format_message msg of
        Inl e \<Rightarrow> Inl e
      | Inr m \<Rightarrow>
          (case format_history msgs of
             Inl e \<Rightarrow> Inl e
           | Inr ms \<Rightarrow> Inr (m # ms)))"

text \<open>\<open>str(item.get("text", "")) if isinstance(item, dict) else str(item)\<close>\<close>

definition fragment_text :: "fragment \<Rightarrow> string" where
  "fragment_text item =
     (case item of
        FragDict d \<Rightarrow> py_str (case map_of d ''text'' of None \<Rightarrow> PyStr [] | Some v \<Rightarrow> v)
      | FragValue v \<Rightarrow> py_str v)"

definition normalize_output :: "raw_output \<Rightarrow> string" where
  "normalize_output raw_output =
     (case raw_output of
        OutList items \<Rightarrow> join '' '' (map fragment_text items)
      | OutStr s \<Rightarrow> s
      | OutObj s \<Rightarrow> s)"

definition user_message :: "string \<Rightarrow> message" where
  "user_message user_query = [''role'' \<mapsto> ''user'', ''content'' \<mapsto> user_query]"

definition assistant_message :: "string \<Rightarrow> message" where
  "assistant_message raw_output = [''role'' \<mapsto> ''assistant'', ''content'' \<mapsto> raw_output]"

text \<open>
  The \<open>except Exception\<close> branch of \<open>response_to_json\<close>. It catches what the steps of
  the \<open>try\<close> block raise as \<open>Exception\<close>; cancellation of the coroutine is outside the
  model.
\<close>

definition except_result ::
  "env \<Rightarrow> string \<Rightarrow> string \<Rightarrow> message list \<Rightarrow> exn \<Rightarrow> query_response" where
  "except_result env user_query user_id existing_history e =
     \<lparr>resp_user_id = user_id, resp_question = user_query, resp_output = SORRY_TEXT,
      chat_history_length = length existing_history, error = Some (exc_str env e)\<rparr>"

text \<open>
  Building the prompt, the LLM client, the agent and the executor, and awaiting
  \<open>ainvoke\<close>, are one call to the collaborator \<open>agent_invoke env\<close>.
\<close>

definition agent_executor_ainvoke ::
  "env \<Rightarrow> tool list \<Rightarrow> string \<Rightarrow> message list \<Rightarrow> world \<Rightarrow> (exn + response) \<times> world" where
  "agent_executor_ainvoke env tools user_query formatted_history w =
     (agent_invoke env tools user_query formatted_history, log_event (AgentInvoke user_query) w)"

definition response_to_json ::
  "config \<Rightarrow> env \<Rightarrow> string \<Rightarrow> string \<Rightarrow> world \<Rightarrow> (exn + query_response) \<times> world" where
  "response_to_json cfg env user_query user_id w =
     (case duckduckgo_search_tool env w of
        (Inl e, w1) \<Rightarrow> (Inr (except_result env user_query user_id [] e), w1)
      | (Inr search, w1) \<Rightarrow>
      (case get_cached_gmail_tools env w1 of
        (Inl e, w2) \<Rightarrow> (Inr (except_result env user_query user_id [] e), w2)
      | (Inr gmail, w2) \<Rightarrow>
      (let tools = [datetime_tool, search] @ gmail in
       case load_chat_history cfg env user_id w2 of
        (Inl e, w3) \<Rightarrow> (Inr (except_result env user_query user_id [] e), w3)
      | (Inr existing_history, w3) \<Rightarrow>
      (case format_history existing_history of
        Inl e \<Rightarrow> (Inr (except_result env user_query user_id existing_history e), w3)
      | Inr formatted_history \<Rightarrow>
      (case agent_executor_ainvoke env tools user_query formatted_history w3 of
        (Inl e, w4) \<Rightarrow> (Inr (except_result env user_query user_id existing_history e), w4)
      | (Inr response, w4) \<Rightarrow>
      (let raw_output =
             normalize_output
               (case response ''output'' of None \<Rightarrow> OutStr [] | Some v \<Rightarrow> v);
           history = existing_history @ [user_message user_query, assistant_message raw_output]
       in
       case save_chat_history cfg env user_id history w4 of
        (Inl e, w5) \<Rightarrow> (Inr (except_result env user_query user_id history e), w5)
      | (Inr u, w5) \<Rightarrow>
          (Inr \<lparr>resp_user_id = user_id, resp_question = user_query, resp_output = raw_output,
                chat_history_length = length history, error = None\<rparr>, w5)))))))"

section \<open>HTTP endpoints and lifespan (main.py)\<close>

record query_request =
  req_user_id :: string
  req_question :: string

definition RESET_TEXT :: string where
  "RESET_TEXT = [CHR 0xF0, CHR 0x9F, CHR 0x97, CHR 0x91, CHR 0xEF, CHR 0xB8, CHR 0x8F]
     @ '' Chat history has been reset.''"

text \<open>The body of the \<open>try\<close> block of \<open>ask_database\<close>.\<close>

definition ask_database_try ::
  "config \<Rightarrow> env \<Rightarrow> query_request \<Rightarrow> string option \<Rightarrow> world
     \<Rightarrow> (exn + query_response) \<times> world" where
  "ask_database_try cfg env request token w =
     (if token \<noteq> Some (API_TOKEN cfg) then (Inl (HTTPException 401 ''Unauthorized.''), w)
      else if strip (req_question request) = []
        then (Inl (HTTPException 400 ''Question cannot be empty.''), w)
      else if strip (req_user_id request) = []
        then (Inl (HTTPException 400 ''User ID cannot be empty.''), w)
      else if req_question request = ''/reset'' then
        (case save_chat_history cfg env (req_user_id request) [] w of
           (Inl e, w1) \<Rightarrow> (Inl e, w1)
         | (Inr u, w1) \<Rightarrow>
             (Inr \<lparr>resp_user_id = req_user_id request, resp_question = req_question request,
                   resp_output = RESET_TEXT, chat_history_length = 0, error = None\<rparr>, w1))
      else response_to_json cfg env (req_question request) (req_user_id request) w)"

text \<open>
  \<open>ask_database\<close>: whatever the \<open>try\<close> block raises, the 401 and 400 responses included,
  is caught by \<open>except Exception\<close> and raised again as status 500 with \<open>str(e)\<close> as detail.
\<close>

definition ask_database ::
  "config \<Rightarrow> env \<Rightarrow> query_request \<Rightarrow> string option \<Rightarrow> world
     \<Rightarrow> (exn + query_response) \<times> world" where
  "ask_database cfg env request token w =
     (case ask_database_try cfg env request token w of
        (Inl e, w1) \<Rightarrow> (Inl (HTTPException 500 (exc_str env e)), w1)
      | (Inr r, w1) \<Rightarrow> (Inr r, w1))"

record history_response =
  hist_user_id :: string
  history :: "message list"
  count :: nat

definition get_chat_history ::
  "config \<Rightarrow> env \<Rightarrow> string \<Rightarrow> string option \<Rightarrow> world
     \<Rightarrow> (exn + history_response) \<times> world" where
  "get_chat_history cfg env user_id token w =
     (case (if token \<noteq> Some (API_TOKEN cfg) then (Inl (HTTPException 401 ''Unauthorized.''), w)
            else (case load_chat_history cfg env user_id w of
                    (Inl e, w1) \<Rightarrow> (Inl e, w1)
                  | (Inr h, w1) \<Rightarrow>
                      (Inr \<lparr>hist_user_id = user_id, history = h, count = length h\<rparr>, w1))) of
        (Inl e, w1) \<Rightarrow> (Inl (HTTPException 500 (exc_str env e)), w1)
      | (Inr r, w1) \<Rightarrow> (Inr r, w1))"

text \<open>The part of \<open>lifespan\<close> after \<open>yield\<close>: what runs on a clean shutdown.\<close>

definition lifespan_shutdown :: "config \<Rightarrow> env \<Rightarrow> world \<Rightarrow> (exn + unit) \<times> world" where
  "lifespan_shutdown cfg env w =
     (case delete_chat_history cfg env None w of
        (Inl e, w1) \<Rightarrow> (Inl e, w1)
      | (Inr summary, w1) \<Rightarrow> (Inr (), w1))"


section \<open>Calling sequences used in the statements\<close>

text \<open>
  Successive calls of \<open>get_cached_gmail_tools\<close> in one process, each with the outcome its
  own setup attempt would have; the results are returned in call order.
\<close>

fun gmail_calls :: "env list \<Rightarrow> world \<Rightarrow> (exn + tool list) list \<times> world" where
  "gmail_calls [] w = ([], w)"
| "gmail_calls (env # envs) w =
     (case get_cached_gmail_tools env w of
        (r, w1) \<Rightarrow> (case gmail_calls envs w1 of (rs, w2) \<Rightarrow> (r # rs, w2)))"

text \<open>
  The state in which \<open>response_to_json\<close> loads the history, once the search tool is
  built: the Gmail accessor has run.
\<close>

definition tools_built :: "env \<Rightarrow> world \<Rightarrow> world" where
  "tools_built env w = snd (get_cached_gmail_tools env (log_event SearchToolInit w))"

definition reset_request :: "string \<Rightarrow> query_request" where
  "reset_request user_id = \<lparr>req_user_id = user_id, req_question = ''/reset''\<rparr>"

definition reset_response :: "string \<Rightarrow> query_response" where
  "reset_response user_id =
     \<lparr>resp_user_id = user_id, resp_question = ''/reset'', resp_output = RESET_TEXT,
      chat_history_length = 0, error = None\<rparr>"

text \<open>Two resets in a row, then a history read, each request with its own environment.\<close>

definition reset_twice_then_read ::
  "config \<Rightarrow> env \<Rightarrow> env \<Rightarrow> env \<Rightarrow> string \<Rightarrow> string option \<Rightarrow> world
     \<Rightarrow> (exn + query_response) \<times> (exn + query_response) \<times> (exn + history_response) \<times> world" where
  "reset_twice_then_read cfg env1 env2 env3 user_id token w =
     (case ask_database cfg env1 (reset_request user_id) token w of
        (r1, w1) \<Rightarrow>
          (case ask_database cfg env2 (reset_request user_id) token w1 of
             (r2, w2) \<Rightarrow>
               (case get_chat_history cfg env3 user_id token w2 of
                  (r3, w3) \<Rightarrow> (r1, r2, r3, w3))))"

section \<open>Output normalisation as the specification words it\<close>

text \<open>
  The specification's normalisation: a plain string as it is, a sequence of fragments
  as the concatenation of the fragments' texts in order, anything else as its string
  representation.
\<close>

definition spec_normalize :: "raw_output \<Rightarrow> string" where
  "spec_normalize raw =
     (case raw of
        OutStr s \<Rightarrow> s
      | OutList items \<Rightarrow> concat (map fragment_text items)
      | OutObj s \<Rightarrow> s)"

section \<open>The agent loop\<close>

text \<open>
  Modelled from the spec: the reasoning and tool-calling loop itself is LangChain's
  \<open>AgentExecutor\<close>, which is not among the sources; the repository only constructs it with
  \<open>max_iterations=5\<close>. The definitions of this section follow section 4.4 of the
  specification (states, budget, fold-back of tool results and of tool failures), with the
  budget taken from the source. A tool returns a result or a typed failure; both are folded
  into the scratch region, as is the failure to resolve a tool name.
\<close>

definition max_iterations :: nat where
  "max_iterations = 5"

record descriptor =
  tool_name :: string
  description :: string
  invoke :: "string \<Rightarrow> string + string"

datatype model_reply =
    FinalAnswer raw_output
  | ToolCalls "string option" "(string \<times> string) list"

record model_context =
  system_instructions :: string
  prior_turns :: "message list"
  new_question :: string
  scratch :: "(string \<times> string \<times> string) list"

type_synonym model = "model_context \<Rightarrow> (string \<times> string) list \<Rightarrow> exn + model_reply"

datatype loop_outcome =
    Answered string
  | Exhausted string
  | Failed exn

record loop_result =
  outcome :: loop_outcome
  iterations :: nat
  model_calls :: nat

definition assemble :: "string \<Rightarrow> message list \<Rightarrow> string \<Rightarrow> model_context" where
  "assemble instructions hist q =
     \<lparr>system_instructions = instructions, prior_turns = hist, new_question = q, scratch = []\<rparr>"

definition resolve :: "descriptor list \<Rightarrow> string \<Rightarrow> descriptor option" where
  "resolve registry n = find (\<lambda>d. tool_name d = n) registry"

definition run_tool :: "descriptor list \<Rightarrow> string \<Rightarrow> string \<Rightarrow> string" where
  "run_tool registry n arg =
     (case resolve registry n of
        None \<Rightarrow> ''UnknownToolError: '' @ n
      | Some d \<Rightarrow> (case invoke d arg of Inl failure \<Rightarrow> failure | Inr result \<Rightarrow> result))"

fun execute_calls ::
  "descriptor list \<Rightarrow> (string \<times> string) list \<Rightarrow> (string \<times> string \<times> string) list
     \<Rightarrow> (string \<times> string \<times> string) list" where
  "execute_calls registry [] sc = sc"
| "execute_calls registry ((n, arg) # calls) sc =
     execute_calls registry calls (sc @ [(n, arg, run_tool registry n arg)])"

definition GENERIC_FALLBACK :: string where
  "GENERIC_FALLBACK = ''Agent stopped due to iteration limit.''"

text \<open>
  Modelled from the spec: the loop of section 4.4, steps 1 to 4, in place of
  \<open>AgentExecutor\<close>. \<open>iteration\<close> is the specification's counter, \<open>calls\<close> counts the
  model invocations made so far, and \<open>last_output\<close> is the text of the last model reply,
  from which an exhausted loop builds its answer.
\<close>

function agent_loop_from ::
  "model \<Rightarrow> descriptor list \<Rightarrow> nat \<Rightarrow> nat \<Rightarrow> nat \<Rightarrow> string option \<Rightarrow> model_context
     \<Rightarrow> loop_result" where
  "agent_loop_from m registry budget iteration calls last_output ctx =
     (if iteration < budget then
        (case m ctx (map (\<lambda>d. (tool_name d, description d)) registry) of
           Inl e \<Rightarrow> \<lparr>outcome = Failed e, iterations = iteration, model_calls = Suc calls\<rparr>
         | Inr (FinalAnswer raw) \<Rightarrow>
             \<lparr>outcome = Answered (spec_normalize raw), iterations = iteration,
              model_calls = Suc calls\<rparr>
         | Inr (ToolCalls said requests) \<Rightarrow>
             agent_loop_from m registry budget (Suc iteration) (Suc calls) said
               (ctx\<lparr>scratch := execute_calls registry requests (scratch ctx)\<rparr>))
      else
        \<lparr>outcome = Exhausted (case last_output of Some t \<Rightarrow> t | None \<Rightarrow> GENERIC_FALLBACK),
         iterations = iteration, model_calls = calls\<rparr>)"
  by pat_completeness auto
termination
  by (relation "measure (\<lambda>(m, registry, budget, iteration, calls, last_output, ctx).
        budget - iteration)") auto

declare agent_loop_from.simps [simp del]

definition agent_loop :: "model \<Rightarrow> descriptor list \<Rightarrow> model_context \<Rightarrow> loop_result" where
  "agent_loop m registry ctx = agent_loop_from m registry max_iterations 0 0 None ctx"

section \<open>Sample inputs\<close>

definition sample_config :: config where
  "sample_config = \<lparr>API_TOKEN = ''123456'', PSYCOPG2_AVAILABLE = False, POSTGRES_URL = []\<rparr>"

definition durable_config :: config where
  "durable_config =
     \<lparr>API_TOKEN = ''123456'', PSYCOPG2_AVAILABLE = True, POSTGRES_URL = ''postgresql://db/app''\<rparr>"

text \<open>
  A sample \<open>str()\<close>: an \<open>HTTPException\<close> prints as its three-digit status, a colon and
  its detail; a \<open>KeyError\<close> prints its key in single quotes.
\<close>

definition sample_str :: "exn \<Rightarrow> string" where
  "sample_str e =
     (case e of
        HTTPException code detail \<Rightarrow>
          [''0123456789'' ! (code div 100 mod 10), ''0123456789'' ! (code div 10 mod 10),
           ''0123456789'' ! (code mod 10)] @ '': '' @ detail
      | KeyError k \<Rightarrow> [CHR 0x27] @ k @ [CHR 0x27]
      | ExternalError s \<Rightarrow> s)"

text \<open>An environment in which everything works and the agent answers \<open>hi\<close>.\<close>

definition good_env :: env where
  "good_env =
     \<lparr>load_db = None, save_db = None, delete_db = None, search_init = None,
      gmail_setup = Inr [Tool ''send_gmail_message''],
      agent_invoke = (\<lambda>tools q h. Inr [''output'' \<mapsto> OutStr ''hi'']),
      exc_str = sample_str\<rparr>"

text \<open>An environment in which every collaborator fails.\<close>

definition bad_env :: env where
  "bad_env =
     \<lparr>load_db = Some (ExternalError ''connection refused''),
      save_db = Some (ExternalError ''connection refused''),
      delete_db = Some (ExternalError ''connection refused''),
      search_init = None,
      gmail_setup = Inl (ExternalError ''no credentials''),
      agent_invoke = (\<lambda>tools q h. Inl (ExternalError ''model timeout'')),
      exc_str = sample_str\<rparr>"

definition empty_world :: world where
  "empty_world =
     \<lparr>IN_MEMORY_STORE = Map.empty, chat_history_table = Map.empty,
      GMAIL_TOOLS_CACHE = None, trace = []\<rparr>"

text \<open>A process that holds one finished exchange of user \<open>u1\<close>, in memory and durably.\<close>

definition stored_world :: world where
  "stored_world =
     \<lparr>IN_MEMORY_STORE = [''u1'' \<mapsto> [user_message ''hello'', assistant_message ''hi'']],
      chat_history_table = [''u1'' \<mapsto> [user_message ''hello'', assistant_message ''hi'']],
      GMAIL_TOOLS_CACHE = None, trace = []\<rparr>"

text \<open>A model that asks for the clock on every call, and a registry that has a clock.\<close>

definition clock_model :: model where
  "clock_model ctx ds = Inr (ToolCalls None [(''current_datetime'', ''UTC'')])"

definition clock_registry :: "descriptor list" where
  "clock_registry =
     [\<lparr>tool_name = ''current_datetime'', description = ''the current date and time'',
        invoke = (\<lambda>arg. Inr ''2024-01-01 00:00:00'')\<rparr>]"


section \<open>Facts about the conversation store\<close>

lemma can_use_db_durable: "can_use_db durable_config"
  by (simp add: can_use_db_def durable_config_def strip_def is_space_def)

lemma can_use_db_sample: "\<not> can_use_db sample_config"
  by (simp add: can_use_db_def sample_config_def)

lemma log_event_keeps:
  "IN_MEMORY_STORE (log_event ev w) = IN_MEMORY_STORE w \<and>
   chat_history_table (log_event ev w) = chat_history_table w"
  by (simp add: log_event_def)

lemma save_chat_history_eq:
  "save_chat_history cfg env user_id h w =
     (Inr (),
      w\<lparr>IN_MEMORY_STORE := (IN_MEMORY_STORE w)(user_id \<mapsto> h),
        chat_history_table :=
          (if can_use_db cfg \<and> save_db env = None
           then (chat_history_table w)(user_id \<mapsto> h) else chat_history_table w),
        trace := trace w @ (if can_use_db cfg then [StoreSave user_id, DbConnect]
                            else [StoreSave user_id])\<rparr>)"
  by (simp add: save_chat_history_def db_upsert_def log_event_def Let_def split: option.splits)

lemma load_chat_history_eq:
  "load_chat_history cfg env user_id w =
     (Inr (if can_use_db cfg \<and> load_db env = None
           then store_get (chat_history_table w) user_id
           else store_get (IN_MEMORY_STORE w) user_id),
      w\<lparr>trace := trace w @ (if can_use_db cfg then [StoreLoad user_id, DbConnect]
                          else [StoreLoad user_id])\<rparr>)"
  by (simp add: load_chat_history_def db_select_def log_event_def Let_def store_get_def
        split: option.splits)

lemma load_chat_history_volatile:
  "\<not> can_use_db cfg \<Longrightarrow>
     load_chat_history cfg env user_id w =
       (Inr (store_get (IN_MEMORY_STORE w) user_id), log_event (StoreLoad user_id) w)"
  by (simp add: load_chat_history_def log_event_def Let_def)

lemma load_chat_history_db_error:
  "can_use_db cfg \<Longrightarrow> load_db env = Some e \<Longrightarrow>
     load_chat_history cfg env user_id w =
       (Inr (store_get (IN_MEMORY_STORE w) user_id),
        log_event DbConnect (log_event (StoreLoad user_id) w))"
  by (simp add: load_chat_history_def db_select_def log_event_def Let_def)

lemma load_chat_history_db_ok:
  "can_use_db cfg \<Longrightarrow> load_db env = None \<Longrightarrow>
     load_chat_history cfg env user_id w =
       (Inr (store_get (chat_history_table w) user_id),
        log_event DbConnect (log_event (StoreLoad user_id) w))"
  by (simp add: load_chat_history_def db_select_def log_event_def Let_def store_get_def)

lemma load_chat_history_total:
  "\<exists>h. fst (load_chat_history cfg env user_id w) = Inr h"
  by (cases "can_use_db cfg"; cases "load_db env")
     (simp_all add: load_chat_history_volatile load_chat_history_db_error
        load_chat_history_db_ok)

lemma load_chat_history_keeps:
  "IN_MEMORY_STORE (snd (load_chat_history cfg env user_id w)) = IN_MEMORY_STORE w \<and>
   chat_history_table (snd (load_chat_history cfg env user_id w)) = chat_history_table w \<and>
   GMAIL_TOOLS_CACHE (snd (load_chat_history cfg env user_id w)) = GMAIL_TOOLS_CACHE w"
  by (simp add: load_chat_history_def db_select_def log_event_def Let_def split: option.splits)

lemma load_chat_history_reads:
  "IN_MEMORY_STORE w = IN_MEMORY_STORE v \<Longrightarrow> chat_history_table w = chat_history_table v \<Longrightarrow>
     fst (load_chat_history cfg env user_id w) = fst (load_chat_history cfg env user_id v)"
  by (simp add: load_chat_history_def db_select_def log_event_def Let_def split: option.splits)

lemma save_chat_history_result: "fst (save_chat_history cfg env user_id h w) = Inr ()"
  by (simp add: save_chat_history_def db_upsert_def Let_def split: option.splits)

lemma save_chat_history_store:
  "IN_MEMORY_STORE (snd (save_chat_history cfg env user_id h w)) =
     (IN_MEMORY_STORE w)(user_id \<mapsto> h)"
  by (simp add: save_chat_history_def db_upsert_def log_event_def Let_def split: option.splits)

lemma save_chat_history_table:
  "chat_history_table (snd (save_chat_history cfg env user_id h w)) =
     (if can_use_db cfg \<and> save_db env = None
      then (chat_history_table w)(user_id \<mapsto> h) else chat_history_table w)"
  by (simp add: save_chat_history_def db_upsert_def log_event_def Let_def split: option.splits)

text \<open>
  Claim C5. When the durable backend is not in use, or the durable query of the load
  fails, a save followed by a load of the same \<open>user_id\<close> returns exactly the saved
  sequence, whatever became of the save's own durable statement. In every configuration
  and environment the load returns a sequence and never an exception; it returns the
  empty sequence for a \<open>user_id\<close> that neither the in-process store nor the durable
  table knows; and when the durable query fails it returns the in-process copy.
\<close>

theorem fallback_continuity:
  "(\<not> can_use_db cfg \<or> load_db env2 \<noteq> None \<longrightarrow>
      fst (save_chat_history cfg env1 user_id h w) = Inr () \<and>
      fst (load_chat_history cfg env2 user_id (snd (save_chat_history cfg env1 user_id h w)))
        = Inr h) \<and>
   (\<exists>loaded. fst (load_chat_history cfg env user_id w) = Inr loaded) \<and>
   (IN_MEMORY_STORE w user_id = None \<and> chat_history_table w user_id = None \<longrightarrow>
      fst (load_chat_history cfg env user_id w) = Inr []) \<and>
   (can_use_db cfg \<and> load_db env \<noteq> None \<longrightarrow>
      fst (load_chat_history cfg env user_id w) = Inr (store_get (IN_MEMORY_STORE w) user_id))"
proof (intro conjI impI)
  assume down: "\<not> can_use_db cfg \<or> load_db env2 \<noteq> None"
  show "fst (save_chat_history cfg env1 user_id h w) = Inr ()"
    by (rule save_chat_history_result)
  let ?w1 = "snd (save_chat_history cfg env1 user_id h w)"
  have "fst (load_chat_history cfg env2 user_id ?w1) =
          Inr (store_get (IN_MEMORY_STORE ?w1) user_id)"
    using down
    by (cases "can_use_db cfg")
       (auto simp add: load_chat_history_volatile load_chat_history_db_error)
  then show "fst (load_chat_history cfg env2 user_id ?w1) = Inr h"
    by (simp add: save_chat_history_store store_get_def)
next
  show "\<exists>loaded. fst (load_chat_history cfg env user_id w) = Inr loaded"
    by (rule load_chat_history_total)
next
  assume "IN_MEMORY_STORE w user_id = None \<and> chat_history_table w user_id = None"
  then show "fst (load_chat_history cfg env user_id w) = Inr []"
    by (cases "can_use_db cfg"; cases "load_db env")
       (simp_all add: load_chat_history_volatile load_chat_history_db_error
          load_chat_history_db_ok store_get_def)
next
  assume "can_use_db cfg \<and> load_db env \<noteq> None"
  then show "fst (load_chat_history cfg env user_id w)
      = Inr (store_get (IN_MEMORY_STORE w) user_id)"
    by (auto simp add: load_chat_history_db_error)
qed

theorem fallback_continuity_witness:
  "can_use_db durable_config \<and> load_db bad_env \<noteq> None \<and>
   IN_MEMORY_STORE empty_world ''u1'' = None \<and> chat_history_table empty_world ''u1'' = None \<and>
   fst (load_chat_history durable_config bad_env ''u1''
          (snd (save_chat_history durable_config bad_env ''u1'' [user_message ''hello'']
             empty_world)))
     = Inr [user_message ''hello''] \<and>
   fst (load_chat_history durable_config bad_env ''u1'' empty_world) = Inr []"
proof -
  have a: "can_use_db durable_config" by (rule can_use_db_durable)
  have b: "load_db bad_env \<noteq> None" by (simp add: bad_env_def)
  have c: "IN_MEMORY_STORE empty_world ''u1'' = None \<and>
           chat_history_table empty_world ''u1'' = None"
    by (simp add: empty_world_def)
  show ?thesis
    using a b c
      fallback_continuity [of durable_config bad_env bad_env "''u1''"
        "[user_message ''hello'']" empty_world bad_env]
    by simp
qed

section \<open>The Gmail tool accessor\<close>

lemma get_cached_gmail_tools_cached:
  "GMAIL_TOOLS_CACHE w = Some ts \<Longrightarrow> get_cached_gmail_tools env w = (Inr ts, w)"
  by (simp add: get_cached_gmail_tools_def)

lemma gmail_calls_cached:
  "GMAIL_TOOLS_CACHE w = Some ts \<Longrightarrow>
     gmail_calls envs w = (replicate (length envs) (Inr ts), w)"
  by (induction envs) (simp_all add: get_cached_gmail_tools_cached)

lemma get_cached_gmail_tools_first:
  "GMAIL_TOOLS_CACHE w = None \<Longrightarrow>
     get_cached_gmail_tools env w =
       (Inr (case gmail_setup env of Inl e \<Rightarrow> [] | Inr ts \<Rightarrow> ts),
        w\<lparr>GMAIL_TOOLS_CACHE := Some (case gmail_setup env of Inl e \<Rightarrow> [] | Inr ts \<Rightarrow> ts),
          trace := trace w @ [GmailSetup]\<rparr>)"
  by (simp add: get_cached_gmail_tools_def log_event_def Let_def split: sum.splits)

lemma get_cached_gmail_tools_total:
  "\<exists>ts. fst (get_cached_gmail_tools env w) = Inr ts"
  by (simp add: get_cached_gmail_tools_def Let_def split: option.splits sum.splits)

lemma get_cached_gmail_tools_keeps:
  "IN_MEMORY_STORE (snd (get_cached_gmail_tools env w)) = IN_MEMORY_STORE w \<and>
   chat_history_table (snd (get_cached_gmail_tools env w)) = chat_history_table w"
  by (simp add: get_cached_gmail_tools_def log_event_def Let_def split: option.splits sum.splits)

text \<open>
  Claim C9. In a process whose cache is still unset, the first call of the accessor runs
  the setup once and returns its tools, or the empty list when the setup fails; that
  list is cached, and every later call, whatever its own setup attempt would have
  yielded, returns the same list and changes nothing: no further setup is recorded.
  In no state does the accessor raise.
\<close>

theorem gmail_tools_initialised_once:
  assumes fresh: "GMAIL_TOOLS_CACHE w = None"
  shows "(let ts = (case gmail_setup env of Inl e \<Rightarrow> [] | Inr tools \<Rightarrow> tools);
              w1 = snd (get_cached_gmail_tools env w)
          in fst (get_cached_gmail_tools env w) = Inr ts \<and>
             GMAIL_TOOLS_CACHE w1 = Some ts \<and>
             trace w1 = trace w @ [GmailSetup] \<and>
             gmail_calls envs w1 = (replicate (length envs) (Inr ts), w1)) \<and>
         (\<exists>r. fst (get_cached_gmail_tools env' w') = Inr r)"
proof -
  let ?ts = "case gmail_setup env of Inl e \<Rightarrow> [] | Inr tools \<Rightarrow> tools"
  let ?w1 = "w\<lparr>GMAIL_TOOLS_CACHE := Some ?ts, trace := trace w @ [GmailSetup]\<rparr>"
  have first: "get_cached_gmail_tools env w = (Inr ?ts, ?w1)"
    using fresh by (rule get_cached_gmail_tools_first)
  have later: "gmail_calls envs ?w1 = (replicate (length envs) (Inr ?ts), ?w1)"
    by (rule gmail_calls_cached) simp
  have total: "\<exists>r. fst (get_cached_gmail_tools env' w') = Inr r"
    by (rule get_cached_gmail_tools_total)
  show ?thesis
    unfolding Let_def first using later total by simp
qed

theorem gmail_tools_initialised_once_witness:
  "GMAIL_TOOLS_CACHE empty_world = None \<and>
   fst (get_cached_gmail_tools bad_env empty_world) = Inr [] \<and>
   gmail_calls [good_env, bad_env, good_env] (snd (get_cached_gmail_tools bad_env empty_world))
     = ([Inr [], Inr [], Inr []], snd (get_cached_gmail_tools bad_env empty_world)) \<and>
   trace (snd (get_cached_gmail_tools bad_env empty_world)) = [GmailSetup]"
proof -
  have fresh: "GMAIL_TOOLS_CACHE empty_world = None" by (simp add: empty_world_def)
  have gm: "gmail_setup bad_env = Inl (ExternalError ''no credentials'')"
    by (simp add: bad_env_def)
  show ?thesis
    using fresh gmail_tools_initialised_once
      [OF fresh, of bad_env "[good_env, bad_env, good_env]"]
    by (simp add: Let_def gm empty_world_def)
qed

section \<open>One turn of the orchestrator\<close>

lemma duckduckgo_search_tool_eq:
  "duckduckgo_search_tool env w =
     (case search_init env of Some e \<Rightarrow> Inl e | None \<Rightarrow> Inr (Tool ''duckduckgo_search''),
      log_event SearchToolInit w)"
  by (simp add: duckduckgo_search_tool_def Let_def split: option.splits)

lemma tools_built_keeps:
  "IN_MEMORY_STORE (tools_built env w) = IN_MEMORY_STORE w \<and>
   chat_history_table (tools_built env w) = chat_history_table w"
  by (simp add: tools_built_def get_cached_gmail_tools_keeps log_event_def)

text \<open>
  Every run of \<open>response_to_json\<close> ends in one of two ways: in the \<open>except\<close> branch, with
  both stores as they were, or after the save, with the loaded history extended by the
  question and the answer.
\<close>

lemma response_to_json_cases:
  assumes run: "response_to_json cfg env user_query user_id w = (res, w')"
  shows
   "(\<exists>e h. res = Inr (except_result env user_query user_id h e) \<and>
      IN_MEMORY_STORE w' = IN_MEMORY_STORE w \<and> chat_history_table w' = chat_history_table w) \<or>
    (\<exists>gmail loaded formatted tools response raw w4.
      search_init env = None \<and>
      fst (get_cached_gmail_tools env (log_event SearchToolInit w)) = Inr gmail \<and>
      tools = [datetime_tool, Tool ''duckduckgo_search''] @ gmail \<and>
      fst (load_chat_history cfg env user_id w) = Inr loaded \<and>
      format_history loaded = Inr formatted \<and>
      agent_invoke env tools user_query formatted = Inr response \<and>
      raw = normalize_output (case response ''output'' of None \<Rightarrow> OutStr [] | Some v \<Rightarrow> v) \<and>
      res = Inr \<lparr>resp_user_id = user_id, resp_question = user_query, resp_output = raw,
                 chat_history_length = length loaded + 2, error = None\<rparr> \<and>
      IN_MEMORY_STORE w4 = IN_MEMORY_STORE w \<and> chat_history_table w4 = chat_history_table w \<and>
      w' = snd (save_chat_history cfg env user_id
                 (loaded @ [user_message user_query, assistant_message raw]) w4))"
proof -
  let ?w1 = "log_event SearchToolInit w"
  show ?thesis
  proof (cases "search_init env")
    case (Some e)
    then have "res = Inr (except_result env user_query user_id [] e) \<and> w' = ?w1"
      using run by (auto simp add: response_to_json_def duckduckgo_search_tool_eq)
    then show ?thesis by (auto simp add: log_event_keeps)
  next
    case None
    obtain gmail where g: "fst (get_cached_gmail_tools env ?w1) = Inr gmail"
      using get_cached_gmail_tools_total by blast
    obtain w2 where w2: "w2 = tools_built env w" by simp
    have gm: "get_cached_gmail_tools env ?w1 = (Inr gmail, w2)"
      using g by (simp add: w2 tools_built_def prod_eq_iff)
    have k2: "IN_MEMORY_STORE w2 = IN_MEMORY_STORE w \<and>
              chat_history_table w2 = chat_history_table w"
      by (simp add: w2 tools_built_keeps)
    obtain loaded where l: "fst (load_chat_history cfg env user_id w2) = Inr loaded"
      using load_chat_history_total by blast
    obtain w3 where w3: "w3 = snd (load_chat_history cfg env user_id w2)" by simp
    have ld: "load_chat_history cfg env user_id w2 = (Inr loaded, w3)"
      using l by (simp add: w3 prod_eq_iff)
    have l0: "fst (load_chat_history cfg env user_id w) = Inr loaded"
      using l load_chat_history_reads [of w2 w cfg env user_id] k2 by simp
    have k3: "IN_MEMORY_STORE w3 = IN_MEMORY_STORE w \<and>
              chat_history_table w3 = chat_history_table w"
      by (simp add: w3 load_chat_history_keeps k2)
    let ?tools = "[datetime_tool, Tool ''duckduckgo_search''] @ gmail"
    show ?thesis
    proof (cases "format_history loaded")
      case (Inl e)
      then have "res = Inr (except_result env user_query user_id loaded e) \<and> w' = w3"
        using run None gm ld
        by (auto simp add: response_to_json_def duckduckgo_search_tool_eq Let_def)
      then show ?thesis using k3 by auto
    next
      case (Inr formatted)
      let ?w4 = "log_event (AgentInvoke user_query) w3"
      have k4: "IN_MEMORY_STORE ?w4 = IN_MEMORY_STORE w \<and>
                chat_history_table ?w4 = chat_history_table w"
        using k3 by (simp add: log_event_keeps)
      show ?thesis
      proof (cases "agent_invoke env ?tools user_query formatted")
        case (Inl e)
        then have "res = Inr (except_result env user_query user_id loaded e) \<and> w' = ?w4"
          using run None gm ld Inr
          by (auto simp add: response_to_json_def duckduckgo_search_tool_eq Let_def
                agent_executor_ainvoke_def)
        then show ?thesis using k4 by auto
      next
        case inv: (Inr response)
        let ?raw = "normalize_output
                      (case response ''output'' of None \<Rightarrow> OutStr [] | Some v \<Rightarrow> v)"
        let ?h = "loaded @ [user_message user_query, assistant_message ?raw]"
        obtain w5 where w5: "w5 = snd (save_chat_history cfg env user_id ?h ?w4)" by simp
        have sv: "save_chat_history cfg env user_id ?h ?w4 = (Inr (), w5)"
          by (simp add: w5 prod_eq_iff save_chat_history_result)
        have "res = Inr \<lparr>resp_user_id = user_id, resp_question = user_query,
                 resp_output = ?raw, chat_history_length = length loaded + 2, error = None\<rparr>
              \<and> w' = w5"
          using run None gm ld Inr inv sv
          by (simp add: response_to_json_def duckduckgo_search_tool_eq Let_def
                agent_executor_ainvoke_def)
        then show ?thesis using None g l0 Inr inv k4 w5 by blast
      qed
    qed
  qed
qed

lemma good_turn:
  "fst (response_to_json sample_config good_env ''hello'' ''u1'' empty_world) =
     Inr \<lparr>resp_user_id = ''u1'', resp_question = ''hello'', resp_output = ''hi'',
           chat_history_length = 2, error = None\<rparr>"
  by (simp add: response_to_json_def duckduckgo_search_tool_eq get_cached_gmail_tools_def
        load_chat_history_eq save_chat_history_eq agent_executor_ainvoke_def
        normalize_output_def can_use_db_sample store_get_def log_event_def Let_def
        good_env_def empty_world_def)

lemma bad_turn:
  "response_to_json sample_config bad_env ''hello'' ''u1'' empty_world =
     (Inr \<lparr>resp_user_id = ''u1'', resp_question = ''hello'', resp_output = SORRY_TEXT,
            chat_history_length = 0, error = Some ''model timeout''\<rparr>,
      \<lparr>IN_MEMORY_STORE = Map.empty, chat_history_table = Map.empty,
        GMAIL_TOOLS_CACHE = Some [],
        trace = [SearchToolInit, GmailSetup, StoreLoad ''u1'', AgentInvoke ''hello'']\<rparr>)"
  by (simp add: response_to_json_def duckduckgo_search_tool_eq get_cached_gmail_tools_def
        load_chat_history_eq agent_executor_ainvoke_def except_result_def sample_str_def
        can_use_db_sample store_get_def log_event_def Let_def
        bad_env_def empty_world_def)

text \<open>
  Claim C3. A turn that returns without an error reports a history length of the loaded
  history's length plus two, and has saved a history of that length: the loaded history,
  unchanged, followed first by the message with role \<open>user\<close> whose content is the question
  and then by the message with role \<open>assistant\<close> whose content is the returned answer.
  It is saved in the in-process store always, and in the durable table when the durable
  upsert is committed.
\<close>

theorem successful_turn_appends_two:
  assumes run: "response_to_json cfg env user_query user_id w = (Inr r, w')"
    and ok: "error r = None"
  shows "\<exists>loaded saved.
           fst (load_chat_history cfg env user_id w) = Inr loaded \<and>
           chat_history_length r = length loaded + 2 \<and>
           saved = loaded @ [[''role'' \<mapsto> ''user'', ''content'' \<mapsto> user_query],
                             [''role'' \<mapsto> ''assistant'', ''content'' \<mapsto> resp_output r]] \<and>
           length saved = chat_history_length r \<and>
           take (length loaded) saved = loaded \<and>
           (saved ! length loaded) ''role'' = Some ''user'' \<and>
           (saved ! length loaded) ''content'' = Some user_query \<and>
           (saved ! Suc (length loaded)) ''role'' = Some ''assistant'' \<and>
           (saved ! Suc (length loaded)) ''content'' = Some (resp_output r) \<and>
           IN_MEMORY_STORE w' user_id = Some saved \<and>
           (can_use_db cfg \<and> save_db env = None \<longrightarrow>
              chat_history_table w' user_id = Some saved)"
proof -
  from response_to_json_cases [OF run] ok
  obtain loaded w4 where
    ld: "fst (load_chat_history cfg env user_id w) = Inr loaded" and
    len: "chat_history_length r = length loaded + 2" and
    w': "w' = snd (save_chat_history cfg env user_id
            (loaded @ [user_message user_query, assistant_message (resp_output r)]) w4)" and
    k4: "chat_history_table w4 = chat_history_table w"
    by (auto simp add: except_result_def)
  let ?saved = "loaded @ [[''role'' \<mapsto> ''user'', ''content'' \<mapsto> user_query],
                           [''role'' \<mapsto> ''assistant'', ''content'' \<mapsto> resp_output r]]"
  have msgs: "loaded @ [user_message user_query, assistant_message (resp_output r)] = ?saved"
    by (simp add: user_message_def assistant_message_def)
  have store: "IN_MEMORY_STORE w' user_id = Some ?saved"
    unfolding w' msgs by (simp add: save_chat_history_store)
  have table: "can_use_db cfg \<and> save_db env = None \<longrightarrow>
      chat_history_table w' user_id = Some ?saved"
    unfolding w' msgs by (simp add: save_chat_history_table)
  have shape: "length ?saved = chat_history_length r \<and>
      take (length loaded) ?saved = loaded \<and>
      (?saved ! length loaded) ''role'' = Some ''user'' \<and>
      (?saved ! length loaded) ''content'' = Some user_query \<and>
      (?saved ! Suc (length loaded)) ''role'' = Some ''assistant'' \<and>
      (?saved ! Suc (length loaded)) ''content'' = Some (resp_output r)"
    by (simp add: len nth_append)
  from ld len store table shape show ?thesis by blast
qed

theorem successful_turn_appends_two_witness:
  "\<exists>r w'. response_to_json sample_config good_env ''hello'' ''u1'' empty_world = (Inr r, w') \<and>
      error r = None \<and>
      fst (load_chat_history sample_config good_env ''u1'' empty_world) = Inr [] \<and>
      chat_history_length r = 2 \<and>
      IN_MEMORY_STORE w' ''u1'' =
        Some [[''role'' \<mapsto> ''user'', ''content'' \<mapsto> ''hello''],
              [''role'' \<mapsto> ''assistant'', ''content'' \<mapsto> ''hi'']]"
proof -
  let ?r = "\<lparr>resp_user_id = ''u1'', resp_question = ''hello'', resp_output = ''hi'',
              chat_history_length = 2, error = None\<rparr>"
  obtain w' where run:
    "response_to_json sample_config good_env ''hello'' ''u1'' empty_world = (Inr ?r, w')"
    using good_turn by (metis prod.collapse)
  have ok: "error ?r = None" by simp
  have ld: "fst (load_chat_history sample_config good_env ''u1'' empty_world) = Inr []"
    by (simp add: load_chat_history_eq can_use_db_sample store_get_def empty_world_def)
  from successful_turn_appends_two [OF run ok] ld
  have "IN_MEMORY_STORE w' ''u1'' =
        Some [[''role'' \<mapsto> ''user'', ''content'' \<mapsto> ''hello''],
              [''role'' \<mapsto> ''assistant'', ''content'' \<mapsto> ''hi'']]"
    by auto
  with run ok ld show ?thesis by auto
qed

text \<open>
  Claim C2 as stated fails: in a turn whose agent invocation raises, the result is the
  fallback, nothing is saved, and a later load for the user finds no message at all.
\<close>

theorem failed_turn_question_not_persisted:
  "fst (response_to_json sample_config bad_env ''hello'' ''u1'' empty_world) =
     Inr \<lparr>resp_user_id = ''u1'', resp_question = ''hello'', resp_output = SORRY_TEXT,
           chat_history_length = 0, error = Some ''model timeout''\<rparr> \<and>
   IN_MEMORY_STORE (snd (response_to_json sample_config bad_env ''hello'' ''u1'' empty_world))
     ''u1'' = None \<and>
   fst (load_chat_history sample_config good_env ''u1''
          (snd (response_to_json sample_config bad_env ''hello'' ''u1'' empty_world))) = Inr [] \<and>
   StoreSave ''u1'' \<notin>
     set (trace (snd (response_to_json sample_config bad_env ''hello'' ''u1'' empty_world)))"
  by (simp add: bad_turn load_chat_history_eq can_use_db_sample store_get_def)

text \<open>
  Claim C2, amended. A turn in which the agent invocation raises returns the fallback
  result with an error, and a turn that returns an error, whichever step raised, leaves
  the in-process store and the durable table exactly as they were: the question is not
  recorded, and the answer text is the fixed fallback.
\<close>

theorem failed_turn_persists_nothing:
  assumes run: "response_to_json cfg env user_query user_id w = (res, w')"
  shows "\<exists>r. res = Inr r \<and>
           ((\<forall>tools h. \<exists>e. agent_invoke env tools user_query h = Inl e) \<longrightarrow> error r \<noteq> None) \<and>
           (error r \<noteq> None \<longrightarrow>
              IN_MEMORY_STORE w' = IN_MEMORY_STORE w \<and>
              chat_history_table w' = chat_history_table w \<and>
              resp_output r = SORRY_TEXT)"
proof -
  from response_to_json_cases [OF run] show ?thesis
  proof (elim disjE exE conjE)
    fix e h
    assume "res = Inr (except_result env user_query user_id h e)"
      and "IN_MEMORY_STORE w' = IN_MEMORY_STORE w"
      and "chat_history_table w' = chat_history_table w"
    then show ?thesis by (simp add: except_result_def)
  next
    fix gmail loaded formatted tools response raw w4
    assume inv: "agent_invoke env tools user_query formatted = Inr response"
      and res: "res = Inr \<lparr>resp_user_id = user_id, resp_question = user_query,
                  resp_output = raw, chat_history_length = length loaded + 2, error = None\<rparr>"
    have "\<not> (\<forall>tools h. \<exists>e. agent_invoke env tools user_query h = Inl e)"
    proof
      assume "\<forall>tools h. \<exists>e. agent_invoke env tools user_query h = Inl e"
      then obtain e where "agent_invoke env tools user_query formatted = Inl e" by blast
      with inv show False by simp
    qed
    then show ?thesis using res by simp
  qed
qed

theorem failed_turn_persists_nothing_witness:
  "(\<forall>tools h. \<exists>e. agent_invoke bad_env tools ''hello'' h = Inl e) \<and>
   (\<exists>r. fst (response_to_json sample_config bad_env ''hello'' ''u1'' empty_world) = Inr r \<and>
      error r \<noteq> None \<and> resp_output r = SORRY_TEXT) \<and>
   IN_MEMORY_STORE (snd (response_to_json sample_config bad_env ''hello'' ''u1'' empty_world))
     = IN_MEMORY_STORE empty_world \<and>
   chat_history_table (snd (response_to_json sample_config bad_env ''hello'' ''u1'' empty_world))
     = chat_history_table empty_world"
proof -
  have a: "\<forall>tools h. \<exists>e. agent_invoke bad_env tools ''hello'' h = Inl e"
    by (simp add: bad_env_def)
  obtain res w' where run:
    "response_to_json sample_config bad_env ''hello'' ''u1'' empty_world = (res, w')"
    by force
  from failed_turn_persists_nothing [OF run] a show ?thesis
    by (auto simp add: run)
qed



section \<open>Output normalisation\<close>

lemma join_space_closed:
  "join sep (x # xs) = x @ concat (map (\<lambda>y. sep @ y) xs)"
  by (induction xs arbitrary: x) simp_all

text \<open>
  Claim C7 as stated fails: two text fragments \<open>a\<close> and \<open>b\<close> are flattened to \<open>a b\<close>, with
  a space between them, where concatenation gives \<open>ab\<close>.
\<close>

theorem normalize_output_not_concatenation:
  "normalize_output (OutList [FragDict [(''text'', PyStr ''a'')], FragDict [(''text'', PyStr ''b'')]])
     = ''a b'' \<and>
   spec_normalize (OutList [FragDict [(''text'', PyStr ''a'')], FragDict [(''text'', PyStr ''b'')]])
     = ''ab'' \<and>
   normalize_output (OutList [FragDict [(''text'', PyStr ''a'')], FragDict [(''text'', PyStr ''b'')]])
     \<noteq> spec_normalize
         (OutList [FragDict [(''text'', PyStr ''a'')], FragDict [(''text'', PyStr ''b'')]])"
  by (simp add: normalize_output_def spec_normalize_def fragment_text_def py_str_def)

text \<open>
  Claim C7, amended. A plain string is returned as it is, and any value that is neither
  a string nor a list as its string representation. A list of fragments is flattened to
  the fragments' texts in their order with one space between consecutive fragments. The
  text of a fragment that is not a dict is its string representation; the text of a dict
  fragment is the string representation of its \<open>text\<close> entry, and empty when it has none.
\<close>

theorem normalize_output_joins_with_spaces:
  "normalize_output (OutStr s) = s \<and>
   normalize_output (OutObj s) = s \<and>
   normalize_output (OutList []) = [] \<and>
   normalize_output (OutList (item # items)) =
     fragment_text item @ concat (map (\<lambda>i. '' '' @ fragment_text i) items) \<and>
   fragment_text (FragValue (PyStr s)) = s \<and>
   fragment_text (FragValue (PyObj s)) = s \<and>
   fragment_text (FragDict d) =
     (case map_of d ''text'' of None \<Rightarrow> [] | Some (PyStr t) \<Rightarrow> t | Some (PyObj t) \<Rightarrow> t)"
  by (simp add: normalize_output_def fragment_text_def py_str_def join_space_closed
        comp_def split: option.splits py_value.splits)

section \<open>The query endpoint\<close>

text \<open>
  Claim C1. A query whose token is not the configured one touches nothing (the state,
  trace included, is returned as it was, so no history is loaded and no tool or agent is
  called), but the 401 raised inside the \<open>try\<close> block is caught by its
  \<open>except Exception\<close> and the caller receives status 500, with \<open>str()\<close> of the 401
  exception as detail.
\<close>

theorem auth_mismatch_becomes_500:
  assumes "token \<noteq> Some (API_TOKEN cfg)"
  shows "ask_database cfg env request token w =
           (Inl (HTTPException 500 (exc_str env (HTTPException 401 ''Unauthorized.''))), w)"
  using assms by (simp add: ask_database_def ask_database_try_def)

theorem auth_mismatch_becomes_500_witness:
  "Some ''wrong'' \<noteq> Some (API_TOKEN sample_config) \<and>
   ask_database sample_config good_env \<lparr>req_user_id = ''u1'', req_question = ''hello''\<rparr>
       (Some ''wrong'') empty_world =
     (Inl (HTTPException 500 ''401: Unauthorized.''), empty_world)"
proof -
  have a: "Some ''wrong'' \<noteq> Some (API_TOKEN sample_config)"
    by (simp add: sample_config_def)
  show ?thesis
    using a auth_mismatch_becomes_500 [OF a, of good_env
        "\<lparr>req_user_id = ''u1'', req_question = ''hello''\<rparr>" empty_world]
    by (simp add: good_env_def sample_str_def)
qed

lemma strip_reset: "strip ''/reset'' \<noteq> []"
  by (simp add: strip_def is_space_def)

lemma ask_database_reset:
  assumes "token = Some (API_TOKEN cfg)" and "strip user_id \<noteq> []"
  shows "ask_database cfg env (reset_request user_id) token w =
           (Inr (reset_response user_id), snd (save_chat_history cfg env user_id [] w))"
  using assms
  by (simp add: ask_database_def ask_database_try_def reset_request_def reset_response_def
        strip_reset save_chat_history_eq)

lemma get_chat_history_ok:
  assumes "token = Some (API_TOKEN cfg)"
  shows "get_chat_history cfg env user_id token w =
           (Inr \<lparr>hist_user_id = user_id,
                 history = (if can_use_db cfg \<and> load_db env = None
                            then store_get (chat_history_table w) user_id
                            else store_get (IN_MEMORY_STORE w) user_id),
                 count = length (if can_use_db cfg \<and> load_db env = None
                            then store_get (chat_history_table w) user_id
                            else store_get (IN_MEMORY_STORE w) user_id)\<rparr>,
            snd (load_chat_history cfg env user_id w))"
  using assms by (simp add: get_chat_history_def load_chat_history_eq)

text \<open>
  Claim C8 as stated fails on the last part: with the durable backend in use, when the
  upserts of both resets fail and the query of the following read succeeds, the read
  returns the two messages still held by the durable table.
\<close>

theorem reset_then_read_not_empty:
  "fst (snd (snd (reset_twice_then_read durable_config bad_env bad_env good_env ''u1''
       (Some ''123456'') stored_world)))
     = Inr \<lparr>hist_user_id = ''u1'',
             history = [user_message ''hello'', assistant_message ''hi''], count = 2\<rparr> \<and>
   fst (snd (snd (reset_twice_then_read durable_config bad_env bad_env good_env ''u1''
       (Some ''123456'') stored_world)))
     \<noteq> Inr \<lparr>hist_user_id = ''u1'', history = [], count = 0\<rparr>"
proof -
  have tok: "Some ''123456'' = Some (API_TOKEN durable_config)"
    by (simp add: durable_config_def)
  have uid: "strip ''u1'' \<noteq> []" by (simp add: strip_def is_space_def)
  have a: "save_db bad_env \<noteq> None" by (simp add: bad_env_def)
  have b: "load_db good_env = None" by (simp add: good_env_def)
  show ?thesis
    by (simp add: reset_twice_then_read_def ask_database_reset [OF tok uid]
        get_chat_history_ok [OF tok] save_chat_history_eq load_chat_history_eq
        can_use_db_durable a b store_get_def stored_world_def)
qed

text \<open>
  Claim C8, amended. For an authorised request with a non-blank \<open>user_id\<close>, two resets
  in a row both return the fixed confirmation text with history length 0, and the agent
  is not invoked: the only calls are the two saves and the load, with their connections.
  A following read returns the empty history when the durable backend is not in use, or
  the read's durable query fails, or the durable upsert of one of the two resets was
  committed; otherwise it returns what the durable table held before.
\<close>

theorem reset_twice_then_read_empty:
  assumes tok: "token = Some (API_TOKEN cfg)" and uid: "strip user_id \<noteq> []"
  shows "\<exists>r3 w3.
           reset_twice_then_read cfg env1 env2 env3 user_id token w =
             (Inr (reset_response user_id), Inr (reset_response user_id), r3, w3) \<and>
           chat_history_length (reset_response user_id) = 0 \<and>
           resp_output (reset_response user_id) = RESET_TEXT \<and>
           trace w3 = trace w @
             (if can_use_db cfg
              then [StoreSave user_id, DbConnect, StoreSave user_id, DbConnect,
                    StoreLoad user_id, DbConnect]
              else [StoreSave user_id, StoreSave user_id, StoreLoad user_id]) \<and>
           (\<not> can_use_db cfg \<or> load_db env3 \<noteq> None \<or> save_db env1 = None \<or> save_db env2 = None
              \<longrightarrow> r3 = Inr \<lparr>hist_user_id = user_id, history = [], count = 0\<rparr>) \<and>
           (can_use_db cfg \<and> load_db env3 = None \<and> save_db env1 \<noteq> None \<and> save_db env2 \<noteq> None
              \<longrightarrow> r3 = Inr \<lparr>hist_user_id = user_id,
                             history = store_get (chat_history_table w) user_id,
                             count = length (store_get (chat_history_table w) user_id)\<rparr>)"
  by (auto simp add: reset_twice_then_read_def ask_database_reset [OF tok uid]
        get_chat_history_ok [OF tok] save_chat_history_eq load_chat_history_eq
        reset_response_def store_get_def)

theorem reset_twice_then_read_empty_witness:
  "Some ''123456'' = Some (API_TOKEN sample_config) \<and> strip ''u1'' \<noteq> [] \<and>
   \<not> can_use_db sample_config \<and>
   reset_twice_then_read sample_config good_env good_env good_env ''u1'' (Some ''123456'')
       stored_world =
     (Inr (reset_response ''u1''), Inr (reset_response ''u1''),
      Inr \<lparr>hist_user_id = ''u1'', history = [], count = 0\<rparr>,
      snd (snd (snd (reset_twice_then_read sample_config good_env good_env good_env ''u1''
        (Some ''123456'') stored_world))))"
proof -
  have tok: "Some ''123456'' = Some (API_TOKEN sample_config)"
    by (simp add: sample_config_def)
  have uid: "strip ''u1'' \<noteq> []" by (simp add: strip_def is_space_def)
  show ?thesis
    using tok uid can_use_db_sample
      reset_twice_then_read_empty [OF tok uid, of good_env good_env good_env stored_world]
    by auto
qed

section \<open>Shutdown\<close>

text \<open>
  Claim C10 as stated fails: with the durable backend configured, a shutdown whose
  delete statement fails leaves the durable rows in place.
\<close>

theorem shutdown_keeps_durable_rows_on_failure:
  "can_use_db durable_config \<and>
   chat_history_table (snd (lifespan_shutdown durable_config bad_env stored_world)) ''u1''
     = Some [user_message ''hello'', assistant_message ''hi''] \<and>
   chat_history_table (snd (lifespan_shutdown durable_config bad_env stored_world)) \<noteq> Map.empty"
proof -
  have t: "chat_history_table (snd (lifespan_shutdown durable_config bad_env stored_world)) ''u1''
     = Some [user_message ''hello'', assistant_message ''hi'']"
    by (simp add: lifespan_shutdown_def delete_chat_history_def db_delete_def log_event_def
        Let_def can_use_db_durable bad_env_def stored_world_def)
  then have "chat_history_table (snd (lifespan_shutdown durable_config bad_env stored_world))
      \<noteq> Map.empty"
    by (metis option.distinct(1))
  with t show ?thesis by (simp add: can_use_db_durable)
qed

text \<open>
  Claim C10, amended. On shutdown the lifespan hook calls the delete operation with no
  \<open>user_id\<close>; it does not raise and empties the in-process store. When the durable
  backend is configured and the delete statement is committed, the durable table is
  emptied too; when the backend is not configured, or the statement fails, the table is
  left as it was.
\<close>

theorem shutdown_clears_histories:
  "fst (lifespan_shutdown cfg env w) = Inr () \<and>
   IN_MEMORY_STORE (snd (lifespan_shutdown cfg env w)) = Map.empty \<and>
   (can_use_db cfg \<and> delete_db env = None \<longrightarrow>
      chat_history_table (snd (lifespan_shutdown cfg env w)) = Map.empty) \<and>
   (\<not> can_use_db cfg \<or> delete_db env \<noteq> None \<longrightarrow>
      chat_history_table (snd (lifespan_shutdown cfg env w)) = chat_history_table w) \<and>
   trace (snd (lifespan_shutdown cfg env w)) =
     trace w @ (if can_use_db cfg then [StoreDelete None, DbConnect] else [StoreDelete None])"
  by (auto simp add: lifespan_shutdown_def delete_chat_history_def db_delete_def log_event_def
        Let_def split: option.splits)

theorem shutdown_clears_histories_witness:
  "can_use_db durable_config \<and> delete_db good_env = None \<and>
   IN_MEMORY_STORE (snd (lifespan_shutdown durable_config good_env stored_world)) = Map.empty \<and>
   chat_history_table (snd (lifespan_shutdown durable_config good_env stored_world)) = Map.empty"
proof -
  have a: "can_use_db durable_config \<and> delete_db good_env = None"
    by (simp add: can_use_db_durable good_env_def)
  show ?thesis
    using a shutdown_clears_histories [of durable_config good_env stored_world]
    by simp
qed

section \<open>The iteration budget of the agent loop\<close>

lemma agent_loop_from_bounds:
  "iteration \<le> budget \<Longrightarrow>
     iterations (agent_loop_from m registry budget iteration calls last_output ctx) \<le> budget \<and>
     model_calls (agent_loop_from m registry budget iteration calls last_output ctx)
       \<le> calls + (budget - iteration)"
proof (induction m registry budget iteration calls last_output ctx rule: agent_loop_from.induct)
  case (1 m registry budget iteration calls last_output ctx)
  note unfold = agent_loop_from.simps [of m registry budget iteration calls last_output ctx]
  show ?case
  proof (cases "iteration < budget")
    case False
    with "1.prems" show ?thesis unfolding unfold by simp
  next
    case True
    show ?thesis
    proof (cases "m ctx (map (\<lambda>d. (tool_name d, description d)) registry)")
      case (Inl e)
      with True show ?thesis by (simp add: unfold)
    next
      case (Inr reply)
      show ?thesis
      proof (cases reply)
        case (FinalAnswer raw)
        with True Inr show ?thesis by (simp add: unfold)
      next
        case (ToolCalls said requests)
        have "Suc iteration \<le> budget" using True by simp
        from "1.IH" [OF True Inr ToolCalls this]
        have ih: "iterations (agent_loop_from m registry budget (Suc iteration) (Suc calls) said
                    (ctx\<lparr>scratch := execute_calls registry requests (scratch ctx)\<rparr>)) \<le> budget \<and>
                  model_calls (agent_loop_from m registry budget (Suc iteration) (Suc calls) said
                    (ctx\<lparr>scratch := execute_calls registry requests (scratch ctx)\<rparr>))
                    \<le> Suc calls + (budget - Suc iteration)" .
        have "Suc calls + (budget - Suc iteration) = calls + (budget - iteration)"
          using True by arith
        with ih True Inr ToolCalls show ?thesis by (simp add: unfold)
      qed
    qed
  qed
qed

lemma agent_loop_from_exhausts:
  "\<forall>ctx ds. \<exists>said requests. m ctx ds = Inr (ToolCalls said requests) \<Longrightarrow>
   iteration \<le> budget \<Longrightarrow>
     (\<exists>t. outcome (agent_loop_from m registry budget iteration calls last_output ctx)
            = Exhausted t) \<and>
     iterations (agent_loop_from m registry budget iteration calls last_output ctx) = budget \<and>
     model_calls (agent_loop_from m registry budget iteration calls last_output ctx)
       = calls + (budget - iteration)"
proof (induction m registry budget iteration calls last_output ctx rule: agent_loop_from.induct)
  case (1 m registry budget iteration calls last_output ctx)
  note unfold = agent_loop_from.simps [of m registry budget iteration calls last_output ctx]
  show ?case
  proof (cases "iteration < budget")
    case False
    with "1.prems" show ?thesis unfolding unfold by simp
  next
    case True
    obtain said requests where
      reply: "m ctx (map (\<lambda>d. (tool_name d, description d)) registry)
                = Inr (ToolCalls said requests)"
      using "1.prems"(1) by blast
    have "Suc iteration \<le> budget" using True by simp
    from "1.IH" [OF True reply refl "1.prems"(1) this]
    have ih: "(\<exists>t. outcome (agent_loop_from m registry budget (Suc iteration) (Suc calls) said
                    (ctx\<lparr>scratch := execute_calls registry requests (scratch ctx)\<rparr>))
                 = Exhausted t) \<and>
              iterations (agent_loop_from m registry budget (Suc iteration) (Suc calls) said
                    (ctx\<lparr>scratch := execute_calls registry requests (scratch ctx)\<rparr>)) = budget \<and>
              model_calls (agent_loop_from m registry budget (Suc iteration) (Suc calls) said
                    (ctx\<lparr>scratch := execute_calls registry requests (scratch ctx)\<rparr>))
                 = Suc calls + (budget - Suc iteration)" .
    have "Suc calls + (budget - Suc iteration) = calls + (budget - iteration)"
      using True by arith
    with ih True reply show ?thesis by (simp add: unfold)
  qed
qed

text \<open>
  Claim C4. The agent loop never counts more than 5 iterations and never invokes the model
  more than 5 times; with a model that requests a tool call on every invocation it ends
  as exhausted after exactly 5 iterations and 5 model invocations.
\<close>

theorem agent_loop_budget:
  "iterations (agent_loop m registry ctx) \<le> 5 \<and>
   model_calls (agent_loop m registry ctx) \<le> 5 \<and>
   ((\<forall>c ds. \<exists>said requests. m c ds = Inr (ToolCalls said requests)) \<longrightarrow>
      (\<exists>t. outcome (agent_loop m registry ctx) = Exhausted t) \<and>
      iterations (agent_loop m registry ctx) = 5 \<and>
      model_calls (agent_loop m registry ctx) = 5)"
proof -
  have b: "(0::nat) \<le> max_iterations" by simp
  show ?thesis
    using agent_loop_from_bounds [OF b, of m registry 0 None ctx]
      agent_loop_from_exhausts [OF _ b, of m registry 0 None ctx]
    by (simp add: agent_loop_def max_iterations_def)
qed

theorem agent_loop_budget_witness:
  "(\<forall>c ds. \<exists>said requests. clock_model c ds = Inr (ToolCalls said requests)) \<and>
   outcome (agent_loop clock_model clock_registry (assemble ''be helpful'' [] ''what time is it''))
     = Exhausted GENERIC_FALLBACK \<and>
   iterations (agent_loop clock_model clock_registry
      (assemble ''be helpful'' [] ''what time is it'')) = 5 \<and>
   model_calls (agent_loop clock_model clock_registry
      (assemble ''be helpful'' [] ''what time is it'')) = 5"
proof -
  have a: "\<forall>c ds. \<exists>said requests. clock_model c ds = Inr (ToolCalls said requests)"
    by (simp add: clock_model_def)
  have o: "outcome (agent_loop clock_model clock_registry
             (assemble ''be helpful'' [] ''what time is it'')) = Exhausted GENERIC_FALLBACK"
    by (simp add: agent_loop_def max_iterations_def eval_nat_numeral agent_loop_from.simps
          clock_model_def)
  show ?thesis
    using a o agent_loop_budget [of clock_model clock_registry
        "assemble ''be helpful'' [] ''what time is it''"]
    by simp
qed

end
